theory Spec2Isabelle
  imports Complex_Main "HOL-Library.Char_ord" "HOL-Library.List_Lexorder"
begin

section \<open>Data model\<close>

text \<open>
  The SQLAlchemy models of \<^verbatim>\<open>app/models\<close> become records; a nullable column becomes an
  \<open>option\<close>. Only the columns that the rating and invoicing services read or write are kept.
  A \<^verbatim>\<open>Float\<close> column is modelled by an exact rational (\<open>rat\<close>): products, sums and
  differences are exact, and \<^verbatim>\<open>round(x, 2)\<close> is \<open>round2\<close> below. A \<^verbatim>\<open>Date\<close> is its
  ordinal day number, so that \<^verbatim>\<open>today + timedelta(days=n)\<close> is integer addition.
  Field names carry the model's name as a prefix because record fields share one name space.
\<close>

record port =
  p_id :: int
  p_region :: "string option"

record rate_card =
  rc_id :: int
  rc_origin_port_id :: "int option"
  rc_destination_port_id :: "int option"
  rc_container_type :: string
  rc_base_ocean_freight :: rat
  rc_effective_from :: int
  rc_is_active :: "bool option"

record surcharge =
  s_id :: int
  s_charge_code :: string
  s_charge_name :: string
  s_calculation_type :: string
  s_amount :: rat
  s_applies_to :: "string option"
  s_origin_port_id :: "int option"
  s_destination_port_id :: "int option"
  s_is_active :: "bool option"

record shipment =
  sh_id :: int
  sh_shipper_id :: "int option"
  sh_consignee_id :: "int option"
  sh_origin_port_id :: "int option"
  sh_destination_port_id :: "int option"
  sh_container_type :: string
  sh_container_count :: "int option"
  sh_cbm :: "rat option"
  sh_bill_to :: "string option"

record client =
  c_id :: int
  c_payment_terms_days :: "int option"

record invoice =
  inv_id :: int
  inv_invoice_number :: string
  inv_shipment_id :: "int option"
  inv_client_id :: "int option"
  inv_issue_date :: int
  inv_due_date :: int
  inv_subtotal :: rat
  inv_tax_amount :: "rat option"
  inv_total_amount :: rat
  inv_amount_paid :: "rat option"
  inv_balance_due :: rat
  inv_status :: "string option"

record invoice_line =
  il_id :: int
  il_invoice_id :: "int option"
  il_line_order :: int
  il_charge_code :: string
  il_description :: string
  il_quantity :: "rat option"
  il_unit_price :: rat
  il_line_total :: rat

record payment =
  pay_id :: int
  pay_invoice_id :: "int option"
  pay_payment_date :: int
  pay_amount :: rat
  pay_payment_method :: "string option"
  pay_reference_number :: "string option"
  pay_notes :: "string option"

text \<open>The dictionaries built by \<^verbatim>\<open>calculate_line_items\<close> have five fixed keys.\<close>

record line_item =
  charge_code :: string
  description :: string
  quantity :: rat
  unit_price :: rat
  line_total :: rat

text \<open>The database session: one list of rows per table, in storage order.\<close>

record db =
  ports :: "port list"
  rate_cards :: "rate_card list"
  surcharges :: "surcharge list"
  shipments :: "shipment list"
  clients :: "client list"
  invoices :: "invoice list"
  invoice_lines :: "invoice_line list"
  payments :: "payment list"

text \<open>
  Every failure raised by the services is a \<^verbatim>\<open>ValueError\<close>; the first five constructors
  stand for its messages: "Shipment with id .. not found", "Shipment .. already has
  invoice ..", "Bill-to client not found for shipment", "No rate card found for route ..."
  and "Invoice with id .. not found". \<open>IntegrityError\<close> is what \<^verbatim>\<open>db.flush()\<close> raises when
  a new invoice repeats a stored \<^verbatim>\<open>invoice_number\<close>, a column declared unique.
\<close>

datatype error =
    ShipmentNotFound int
  | AlreadyHasInvoice int string
  | BillToClientNotFound
  | NoRateCardFound "int option" "int option" string
  | InvoiceNotFound int
  | IntegrityError

section \<open>Python and SQL primitives\<close>

text \<open>\<^verbatim>\<open>round(x, 2)\<close>: the nearest multiple of 1/100, a tie going to the even one.\<close>

definition round2 :: "rat \<Rightarrow> rat" where
  "round2 x =
     (let y = x * 100; f = \<lfloor>y\<rfloor>; d = y - of_int f
      in of_int (if d < 1 / 2 then f
                 else if 1 / 2 < d then f + 1
                 else if even f then f else f + 1) / 100)"

text \<open>\<^verbatim>\<open>x or d\<close> on a nullable number: \<open>d\<close> when \<open>x\<close> is \<^verbatim>\<open>None\<close> or zero.\<close>

definition float_or :: "rat option \<Rightarrow> rat \<Rightarrow> rat" where
  "float_or x d = (case x of None \<Rightarrow> d | Some v \<Rightarrow> if v = 0 then d else v)"

definition int_or :: "int option \<Rightarrow> int \<Rightarrow> int" where
  "int_or x d = (case x of None \<Rightarrow> d | Some v \<Rightarrow> if v = 0 then d else v)"

text \<open>\<^verbatim>\<open>max(a, b)\<close> returns its first argument unless the second is greater.\<close>

definition py_max :: "rat \<Rightarrow> rat \<Rightarrow> rat" where
  "py_max a b = (if a < b then b else a)"

text \<open>\<^verbatim>\<open>query.first()\<close>: the first row of the result, \<^verbatim>\<open>None\<close> when there is none.\<close>

definition first :: "'a list \<Rightarrow> 'a option" where
  "first xs = (case xs of [] \<Rightarrow> None | x # _ \<Rightarrow> Some x)"

text \<open>
  \<^verbatim>\<open>order_by(col.desc())\<close> on an integer-valued column. Rows with equal keys stay in
  storage order.
\<close>

definition order_by_desc :: "('a \<Rightarrow> int) \<Rightarrow> 'a list \<Rightarrow> 'a list" where
  "order_by_desc f xs = sort_key (\<lambda>x. - f x) xs"

section \<open>Charge Calculator\<close>

definition FCL_TYPES :: "string set" where
  "FCL_TYPES = {''20GP'', ''40GP'', ''40HC''}"

definition LCL_MIN_THRESHOLD :: rat where
  "LCL_MIN_THRESHOLD = 120"

definition is_lcl :: "shipment \<Rightarrow> bool" where
  "is_lcl sh = (sh_container_type sh = ''LCL'')"

text \<open>\<^verbatim>\<open>max(shipment.cbm or 0, 1.0)\<close> and \<^verbatim>\<open>shipment.container_count or 1\<close>.\<close>

definition cbm_of :: "shipment \<Rightarrow> rat" where
  "cbm_of sh = py_max (float_or (sh_cbm sh) 0) 1"

definition count_of :: "shipment \<Rightarrow> int" where
  "count_of sh = int_or (sh_container_count sh) 1"

text \<open>The local variable \<^verbatim>\<open>ocean_freight_total\<close>: the product before rounding.\<close>

definition ocean_freight_total :: "shipment \<Rightarrow> rate_card \<Rightarrow> rat" where
  "ocean_freight_total sh rc =
     (if is_lcl sh then rc_base_ocean_freight rc * cbm_of sh
      else rc_base_ocean_freight rc * of_int (count_of sh))"

definition ocean_freight_line :: "shipment \<Rightarrow> rate_card \<Rightarrow> line_item" where
  "ocean_freight_line sh rc =
     (if is_lcl sh then
        \<lparr>charge_code = ''OFR'', description = ''Ocean Freight'', quantity = cbm_of sh,
         unit_price = rc_base_ocean_freight rc,
         line_total = round2 (ocean_freight_total sh rc)\<rparr>
      else
        \<lparr>charge_code = ''OFR'', description = ''Ocean Freight'',
         quantity = of_int (count_of sh),
         unit_price = rc_base_ocean_freight rc,
         line_total = round2 (ocean_freight_total sh rc)\<rparr>)"

text \<open>
  One pass of the loop over the surcharges: the line appended for \<open>s\<close>, or \<open>None\<close> when
  no branch appends (a \<^verbatim>\<open>continue\<close>, or no branch taken).
\<close>

definition surcharge_line :: "shipment \<Rightarrow> rat \<Rightarrow> surcharge \<Rightarrow> line_item option" where
  "surcharge_line sh oft s =
     (if s_calculation_type s = ''per_container'' \<and> \<not> is_lcl sh then
        Some \<lparr>charge_code = s_charge_code s, description = s_charge_name s,
              quantity = of_int (count_of sh), unit_price = s_amount s,
              line_total = round2 (s_amount s * of_int (count_of sh))\<rparr>
      else if s_calculation_type s = ''per_cbm'' \<and> is_lcl sh then
        Some \<lparr>charge_code = s_charge_code s, description = s_charge_name s,
              quantity = cbm_of sh, unit_price = s_amount s,
              line_total = round2 (s_amount s * cbm_of sh)\<rparr>
      else if s_calculation_type s = ''fixed'' then
        (if s_charge_code s = ''LCL_MIN'' \<and> is_lcl sh \<and> LCL_MIN_THRESHOLD \<le> oft then None
         else
           Some \<lparr>charge_code = s_charge_code s, description = s_charge_name s,
                 quantity = 1, unit_price = s_amount s,
                 line_total = round2 (s_amount s)\<rparr>)
      else if s_calculation_type s = ''percentage'' then
        (let pct_amount = (s_amount s / 100) * oft
         in Some \<lparr>charge_code = s_charge_code s, description = s_charge_name s,
                   quantity = 1, unit_price = round2 pct_amount,
                   line_total = round2 pct_amount\<rparr>)
      else None)"

fun surcharge_lines :: "shipment \<Rightarrow> rat \<Rightarrow> surcharge list \<Rightarrow> line_item list" where
  "surcharge_lines sh oft [] = []"
| "surcharge_lines sh oft (s # ss) =
     (case surcharge_line sh oft s of
        None \<Rightarrow> surcharge_lines sh oft ss
      | Some l \<Rightarrow> l # surcharge_lines sh oft ss)"

text \<open>
  \<^verbatim>\<open>surcharge_lines.sort(key=lambda x: x["charge_code"])\<close> is a stable sort on strings
  compared code point by code point; \<^verbatim>\<open>lines + surcharge_lines\<close> puts the ocean-freight
  line in front.
\<close>

definition calculate_line_items :: "shipment \<Rightarrow> rate_card \<Rightarrow> surcharge list \<Rightarrow> line_item list" where
  "calculate_line_items sh rc ss =
     ocean_freight_line sh rc
       # sort_key charge_code (surcharge_lines sh (ocean_freight_total sh rc) ss)"

section \<open>Surcharge Selector\<close>

text \<open>
  The loop of \<^verbatim>\<open>get_applicable_surcharges\<close> keeps an active surcharge unless one of its
  three \<^verbatim>\<open>continue\<close> tests fires. The port arguments are what \<^verbatim>\<open>generate_invoice\<close>
  passes: nullable shipment columns.
\<close>

definition get_applicable_surcharges ::
  "db \<Rightarrow> int option \<Rightarrow> int option \<Rightarrow> string \<Rightarrow> surcharge list" where
  "get_applicable_surcharges d origin_port_id dest_port_id container_type =
     (let category = (if container_type \<in> FCL_TYPES then ''FCL'' else ''LCL'');
          all_active = filter (\<lambda>s. s_is_active s = Some True) (surcharges d)
      in filter (\<lambda>s.
           \<not> (s_applies_to s \<notin> {Some category, Some ''all''}) \<and>
           \<not> (s_origin_port_id s \<noteq> None \<and> s_origin_port_id s \<noteq> origin_port_id) \<and>
           \<not> (s_destination_port_id s \<noteq> None \<and> s_destination_port_id s \<noteq> dest_port_id))
         all_active)"

section \<open>Rate Resolver\<close>

text \<open>\<^verbatim>\<open>column.in_(ids)\<close>: a \<^verbatim>\<open>NULL\<close> column is in no list.\<close>

definition sql_in :: "int option \<Rightarrow> int list \<Rightarrow> bool" where
  "sql_in x ys = (case x of None \<Rightarrow> False | Some v \<Rightarrow> v \<in> set ys)"

text \<open>
  \<^verbatim>\<open>find_rate_card\<close>. A comparison \<^verbatim>\<open>column == value\<close> with a Python \<^verbatim>\<open>None\<close> is
  rendered \<^verbatim>\<open>IS NULL\<close>, so it is equality on \<open>option\<close>; the primary key \<^verbatim>\<open>Port.id\<close> is
  never \<^verbatim>\<open>NULL\<close>.
\<close>

definition find_rate_card ::
  "db \<Rightarrow> int option \<Rightarrow> int option \<Rightarrow> string \<Rightarrow> rate_card option" where
  "find_rate_card d origin_port_id dest_port_id container_type =
     (let exact_match = first (order_by_desc rc_effective_from (filter (\<lambda>rc.
            rc_origin_port_id rc = origin_port_id \<and>
            rc_destination_port_id rc = dest_port_id \<and>
            rc_container_type rc = container_type \<and>
            rc_is_active rc = Some True) (rate_cards d)))
      in if exact_match \<noteq> None then exact_match
      else
        (case first (filter (\<lambda>p. Some (p_id p) = origin_port_id) (ports d)) of
           None \<Rightarrow> None
         | Some origin_port \<Rightarrow>
            (let region_port_ids =
                   map p_id (filter (\<lambda>p. p_region p = p_region origin_port) (ports d));
                 region_match = first (order_by_desc rc_effective_from (filter (\<lambda>rc.
                     sql_in (rc_origin_port_id rc) region_port_ids \<and>
                     rc_destination_port_id rc = dest_port_id \<and>
                     rc_container_type rc = container_type \<and>
                     rc_is_active rc = Some True) (rate_cards d)))
             in if region_match \<noteq> None then region_match
             else
               (case first (filter (\<lambda>p. Some (p_id p) = dest_port_id) (ports d)) of
                  None \<Rightarrow> None
                | Some dest_port \<Rightarrow>
                   (let dest_region_port_ids =
                          map p_id (filter (\<lambda>p. p_region p = p_region dest_port) (ports d));
                        broad_match = first (order_by_desc rc_effective_from (filter (\<lambda>rc.
                            sql_in (rc_origin_port_id rc) region_port_ids \<and>
                            sql_in (rc_destination_port_id rc) dest_region_port_ids \<and>
                            rc_container_type rc = container_type \<and>
                            rc_is_active rc = Some True) (rate_cards d)))
                    in broad_match)))))"








section \<open>Invoice Numbering\<close>

text \<open>
  \<^verbatim>\<open>column.like("P%")\<close> for a pattern \<open>P\<close> without wildcards, with the case-sensitive
  matching of standard SQL, and \<^verbatim>\<open>max\<close> over strings in byte order (\<^verbatim>\<open>NULL\<close> for no row).
\<close>

definition sql_like_prefix :: "string \<Rightarrow> string \<Rightarrow> bool" where
  "sql_like_prefix pre s = (take (length pre) s = pre)"

definition sql_max :: "string list \<Rightarrow> string option" where
  "sql_max xs = (case xs of [] \<Rightarrow> None | x # r \<Rightarrow> Some (fold max r x))"

text \<open>\<^verbatim>\<open>s.split(c)\<close> for a one-character separator: never the empty list.\<close>

fun split_on :: "char \<Rightarrow> string \<Rightarrow> string list" where
  "split_on c [] = [[]]"
| "split_on c (x # xs) =
     (if x = c then [] # split_on c xs
      else (case split_on c xs of w # ws \<Rightarrow> (x # w) # ws | [] \<Rightarrow> [[x]]))"

text \<open>
  \<^verbatim>\<open>int(s)\<close> on an ASCII string: surrounding white space is dropped, one sign is allowed,
  and the digits may be grouped by single underscores. \<open>None\<close> stands for
  \<^verbatim>\<open>ValueError\<close>.
\<close>

definition is_space :: "char \<Rightarrow> bool" where
  "is_space c = (c \<in> set [CHR 0x09, CHR 0x0A, CHR 0x0B, CHR 0x0C, CHR 0x0D,
                           CHR 0x1C, CHR 0x1D, CHR 0x1E, CHR 0x1F, CHR 0x20])"

definition strip :: "string \<Rightarrow> string" where
  "strip s = rev (dropWhile is_space (rev (dropWhile is_space s)))"

definition is_digit :: "char \<Rightarrow> bool" where
  "is_digit c = (c \<in> set ''0123456789'')"

definition digit_val :: "char \<Rightarrow> nat" where
  "digit_val c = of_char c - 48"

definition digits_value :: "string \<Rightarrow> nat" where
  "digits_value ds = foldl (\<lambda>a c. 10 * a + digit_val c) 0 ds"

definition py_int :: "string \<Rightarrow> int option" where
  "py_int s =
     (let t = strip s;
          (sgn, body) = (case t of
               [] \<Rightarrow> (1, t)
             | c # r \<Rightarrow> if c = CHR ''+'' then (1, r)
                        else if c = CHR ''-'' then (- 1, r) else (1, t));
          groups = split_on CHR ''_'' body
      in if list_all (\<lambda>g. g \<noteq> [] \<and> list_all is_digit g) groups
         then Some (sgn * int (digits_value (concat groups)))
         else None)"

text \<open>\<^verbatim>\<open>f"{n:04d}"\<close>: decimal digits, zero-padded to width 4, the sign counted in the width.\<close>

definition digit_char :: "nat \<Rightarrow> char" where
  "digit_char k = char_of (48 + k)"

fun digits_of :: "nat \<Rightarrow> string" where
  "digits_of n =
     (if n < 10 then [digit_char n] else digits_of (n div 10) @ [digit_char (n mod 10)])"

declare digits_of.simps [simp del]

definition zfill :: "nat \<Rightarrow> string \<Rightarrow> string" where
  "zfill w s = replicate (w - length s) CHR ''0'' @ s"

definition format_04d :: "int \<Rightarrow> string" where
  "format_04d n =
     (if n < 0 then CHR ''-'' # zfill 3 (digits_of (nat (- n)))
      else zfill 4 (digits_of (nat n)))"

text \<open>The invoice numbers the query ranges over: those that match \<^verbatim>\<open>INV-2026-%\<close>.\<close>

definition year_numbers :: "db \<Rightarrow> string list" where
  "year_numbers d =
     filter (sql_like_prefix ''INV-2026-'') (map inv_invoice_number (invoices d))"

definition get_next_invoice_number :: "db \<Rightarrow> string" where
  "get_next_invoice_number d =
     (case sql_max (year_numbers d) of
        None \<Rightarrow> ''INV-2026-0001''
      | Some max_invoice_number \<Rightarrow>
         (let sequence = (case py_int (last (split_on CHR ''-'' max_invoice_number)) of
                            Some n \<Rightarrow> n | None \<Rightarrow> 0);
              next_sequence = sequence + 1
          in ''INV-2026-'' @ format_04d next_sequence))"

section \<open>Invoice Lifecycle Manager\<close>

text \<open>An autoincremented primary key: one more than the largest key in the table.\<close>

definition next_id :: "int list \<Rightarrow> int" where
  "next_id ids = fold max ids 0 + 1"

text \<open>Flushing a modified invoice writes the row with its primary key.\<close>

definition update_invoice :: "invoice \<Rightarrow> db \<Rightarrow> db" where
  "update_invoice i d =
     d\<lparr>invoices := map (\<lambda>j. if inv_id j = inv_id i then i else j) (invoices d)\<rparr>"

definition get_invoice :: "db \<Rightarrow> int \<Rightarrow> invoice option" where
  "get_invoice d invoice_id = first (filter (\<lambda>i. inv_id i = invoice_id) (invoices d))"

text \<open>
  \<^verbatim>\<open>generate_invoice\<close>, with \<^verbatim>\<open>date.today()\<close> as the argument \<open>today\<close>. The result pairs the
  returned invoice or the raised error with the database after the call; a raise leaves the
  session without pending changes.
\<close>

definition generate_invoice :: "db \<Rightarrow> int \<Rightarrow> int \<Rightarrow> (error + invoice) \<times> db" where
  "generate_invoice d shipment_id today =
     (case first (filter (\<lambda>s. sh_id s = shipment_id) (shipments d)) of
        None \<Rightarrow> (Inl (ShipmentNotFound shipment_id), d)
      | Some shipment \<Rightarrow>
     (case first (filter (\<lambda>i. inv_shipment_id i = Some shipment_id) (invoices d)) of
        Some existing_invoice \<Rightarrow>
          (Inl (AlreadyHasInvoice shipment_id (inv_invoice_number existing_invoice)), d)
      | None \<Rightarrow>
     (case (if sh_bill_to shipment = Some ''consignee''
            then first (filter (\<lambda>c. Some (c_id c) = sh_consignee_id shipment) (clients d))
            else first (filter (\<lambda>c. Some (c_id c) = sh_shipper_id shipment) (clients d))) of
        None \<Rightarrow> (Inl BillToClientNotFound, d)
      | Some client \<Rightarrow>
     (case find_rate_card d (sh_origin_port_id shipment) (sh_destination_port_id shipment)
             (sh_container_type shipment) of
        None \<Rightarrow> (Inl (NoRateCardFound (sh_origin_port_id shipment)
                        (sh_destination_port_id shipment) (sh_container_type shipment)), d)
      | Some rate_card \<Rightarrow>
         (let applicable = get_applicable_surcharges d (sh_origin_port_id shipment)
                (sh_destination_port_id shipment) (sh_container_type shipment);
              line_items = calculate_line_items shipment rate_card applicable;
              subtotal = sum_list (map line_total line_items);
              tax_amount = 0;
              total_amount = subtotal + tax_amount;
              payment_terms = int_or (c_payment_terms_days client) 30;
              invoice = \<lparr>inv_id = next_id (map inv_id (invoices d)),
                 inv_invoice_number = get_next_invoice_number d,
                 inv_shipment_id = Some shipment_id,
                 inv_client_id = Some (c_id client),
                 inv_issue_date = today,
                 inv_due_date = today + payment_terms,
                 inv_subtotal = round2 subtotal,
                 inv_tax_amount = Some (round2 tax_amount),
                 inv_total_amount = round2 total_amount,
                 inv_amount_paid = Some 0,
                 inv_balance_due = round2 total_amount,
                 inv_status = Some ''draft''\<rparr>;
              first_line_id = next_id (map il_id (invoice_lines d));
              lines = map (\<lambda>(idx, item).
                 \<lparr>il_id = first_line_id + int idx - 1,
                  il_invoice_id = Some (inv_id invoice),
                  il_line_order = int idx,
                  il_charge_code = charge_code item,
                  il_description = description item,
                  il_quantity = Some (quantity item),
                  il_unit_price = unit_price item,
                  il_line_total = line_total item\<rparr>) (List.enumerate 1 line_items)
          in if inv_invoice_number invoice \<in> set (map inv_invoice_number (invoices d))
             then (Inl IntegrityError, d)
             else (Inr invoice,
                   d\<lparr>invoices := invoices d @ [invoice],
                     invoice_lines := invoice_lines d @ lines\<rparr>))))))"

text \<open>Lines 40 to 49 of \<^verbatim>\<open>record_payment\<close>: the updates of the loaded invoice.\<close>

definition apply_payment :: "invoice \<Rightarrow> rat \<Rightarrow> invoice" where
  "apply_payment invoice amount =
     (let amount_paid = float_or (inv_amount_paid invoice) 0 + amount;
          balance_due = inv_total_amount invoice - amount_paid;
          invoice1 = invoice\<lparr>inv_amount_paid := Some amount_paid, inv_balance_due := balance_due\<rparr>
      in if balance_due \<le> 0 then invoice1\<lparr>inv_balance_due := 0, inv_status := Some ''paid''\<rparr>
         else if 0 < amount_paid then invoice1\<lparr>inv_status := Some ''partial''\<rparr>
         else invoice1)"

definition record_payment ::
  "db \<Rightarrow> int \<Rightarrow> rat \<Rightarrow> int \<Rightarrow> string \<Rightarrow> string \<Rightarrow> string \<Rightarrow> (error + payment) \<times> db" where
  "record_payment d invoice_id amount payment_date payment_method reference_number notes =
     (case get_invoice d invoice_id of
        None \<Rightarrow> (Inl (InvoiceNotFound invoice_id), d)
      | Some invoice \<Rightarrow>
         (let payment = \<lparr>pay_id = next_id (map pay_id (payments d)),
                 pay_invoice_id = Some invoice_id, pay_payment_date = payment_date,
                 pay_amount = amount, pay_payment_method = Some payment_method,
                 pay_reference_number = Some reference_number, pay_notes = Some notes\<rparr>
          in (Inr payment,
              update_invoice (apply_payment invoice amount)
                (d\<lparr>payments := payments d @ [payment]\<rparr>))))"

text \<open>
  \<^verbatim>\<open>check_overdue\<close>, with \<^verbatim>\<open>date.today()\<close> as the argument \<open>today\<close>: the query, then the loop
  that marks each selected invoice and counts it.
\<close>

fun mark_overdue :: "invoice list \<Rightarrow> db \<times> int \<Rightarrow> db \<times> int" where
  "mark_overdue [] (d, count) = (d, count)"
| "mark_overdue (i # rest) (d, count) =
     mark_overdue rest (update_invoice (i\<lparr>inv_status := Some ''overdue''\<rparr>) d, count + 1)"

definition check_overdue :: "db \<Rightarrow> int \<Rightarrow> int \<times> db" where
  "check_overdue d today =
     (let overdue_invoices = filter (\<lambda>i. inv_status i = Some ''sent'' \<and> inv_due_date i < today)
             (invoices d);
          (d', count) = mark_overdue overdue_invoices (d, 0)
      in (count, d'))"

section \<open>Example data\<close>

definition ex_fcl :: shipment where
  "ex_fcl = \<lparr>sh_id = 1, sh_shipper_id = Some 1, sh_consignee_id = Some 2,
     sh_origin_port_id = Some 1, sh_destination_port_id = Some 2,
     sh_container_type = ''40HC'', sh_container_count = Some 1, sh_cbm = None,
     sh_bill_to = Some ''shipper''\<rparr>"

definition ex_lcl :: shipment where
  "ex_lcl = \<lparr>sh_id = 2, sh_shipper_id = Some 1, sh_consignee_id = Some 2,
     sh_origin_port_id = Some 1, sh_destination_port_id = Some 2,
     sh_container_type = ''LCL'', sh_container_count = None, sh_cbm = Some 2,
     sh_bill_to = Some ''shipper''\<rparr>"

text \<open>A rate of 10.004 per unit, and rates of 50 and 1800.\<close>

definition ex_rate :: "rat \<Rightarrow> string \<Rightarrow> rate_card" where
  "ex_rate base ct = \<lparr>rc_id = 1, rc_origin_port_id = Some 1, rc_destination_port_id = Some 2,
     rc_container_type = ct, rc_base_ocean_freight = base, rc_effective_from = 739000,
     rc_is_active = Some True\<rparr>"

definition ex_surcharge :: "int \<Rightarrow> string \<Rightarrow> string \<Rightarrow> rat \<Rightarrow> string \<Rightarrow> surcharge" where
  "ex_surcharge i code calc amt applies = \<lparr>s_id = i, s_charge_code = code,
     s_charge_name = code, s_calculation_type = calc, s_amount = amt,
     s_applies_to = Some applies, s_origin_port_id = None, s_destination_port_id = None,
     s_is_active = Some True\<rparr>"

definition ex_port :: "int \<Rightarrow> string \<Rightarrow> port" where
  "ex_port i r = \<lparr>p_id = i, p_region = Some r\<rparr>"

definition ex_card :: "int \<Rightarrow> int \<Rightarrow> int \<Rightarrow> string \<Rightarrow> rat \<Rightarrow> int \<Rightarrow> bool \<Rightarrow> rate_card" where
  "ex_card i orig dest ct base eff act = \<lparr>rc_id = i, rc_origin_port_id = Some orig,
     rc_destination_port_id = Some dest, rc_container_type = ct, rc_base_ocean_freight = base,
     rc_effective_from = eff, rc_is_active = Some act\<rparr>"

definition ex_invoice :: "int \<Rightarrow> string \<Rightarrow> int \<Rightarrow> string \<Rightarrow> int \<Rightarrow> rat \<Rightarrow> rat \<Rightarrow> invoice" where
  "ex_invoice i num ship st due tot paid = \<lparr>inv_id = i, inv_invoice_number = num,
     inv_shipment_id = Some ship, inv_client_id = Some 1, inv_issue_date = due - 30,
     inv_due_date = due, inv_subtotal = tot, inv_tax_amount = Some 0, inv_total_amount = tot,
     inv_amount_paid = Some paid, inv_balance_due = tot - paid, inv_status = Some st\<rparr>"

text \<open>
  A small catalog: ports 1 and 3 in Asia, 2 and 4 in the Americas; two active cards and an
  inactive one for 40HC from 1 to 2, a 20GP card from 3 to 2, an LCL card from 3 to 4; the
  two example shipments; and the invoices given as argument.
\<close>

definition ex_db :: "invoice list \<Rightarrow> db" where
  "ex_db invs = \<lparr>
     ports = [ex_port 1 ''Asia'', ex_port 2 ''Americas'', ex_port 3 ''Asia'',
              ex_port 4 ''Americas''],
     rate_cards = [ex_card 1 1 2 ''40HC'' 1800 739000 True,
                   ex_card 2 1 2 ''40HC'' 1900 739100 True,
                   ex_card 3 3 2 ''20GP'' 1000 739000 True,
                   ex_card 4 3 4 ''LCL'' 50 739000 True,
                   ex_card 5 1 2 ''40HC'' 2500 739200 False],
     surcharges = [ex_surcharge 1 ''BAF'' ''per_container'' 350 ''FCL'',
                   ex_surcharge 2 ''DOC_FEE'' ''fixed'' 75 ''all'',
                   ex_surcharge 3 ''LCL_MIN'' ''fixed'' 120 ''LCL'',
                   ex_surcharge 4 ''CAF'' ''percentage'' 3 ''all''],
     shipments = [ex_fcl, ex_lcl],
     clients = [\<lparr>c_id = 1, c_payment_terms_days = Some 30\<rparr>,
                \<lparr>c_id = 2, c_payment_terms_days = None\<rparr>],
     invoices = invs,
     invoice_lines = [],
     payments = []\<rparr>"

section \<open>Auxiliary facts\<close>

lemma floor_rat_divide_numeral [simp]:
  "\<lfloor>(numeral a :: rat) / numeral b\<rfloor> = numeral a div numeral b"
  by (metis floor_divide_of_int_eq of_int_numeral)

lemma floor_rat_minus_divide_numeral [simp]:
  "\<lfloor>- ((numeral a :: rat) / numeral b)\<rfloor> = - numeral a div numeral b"
  by (metis divide_minus_left floor_divide_of_int_eq of_int_neg_numeral of_int_numeral)

lemma first_filter_Some:
  "first (filter P xs) = Some x \<Longrightarrow> x \<in> set xs \<and> P x"
  by (induction xs) (auto simp: first_def split: if_splits)

lemma first_filter_None:
  "first (filter P xs) = None \<longleftrightarrow> (\<forall>x\<in>set xs. \<not> P x)"
  by (induction xs) (auto simp: first_def)

lemmas example_defs =
  ex_fcl_def ex_lcl_def ex_rate_def ex_surcharge_def ex_port_def ex_card_def ex_invoice_def
  ex_db_def

lemmas calculator_defs =
  calculate_line_items_def ocean_freight_line_def ocean_freight_total_def surcharge_line_def
  is_lcl_def count_of_def cbm_of_def int_or_def float_or_def py_max_def round2_def Let_def
  LCL_MIN_THRESHOLD_def

section \<open>Charge Calculator: properties\<close>


lemma codes_surcharge_lines:
  "map charge_code (surcharge_lines sh t ss) =
     map s_charge_code (filter (\<lambda>s. surcharge_line sh t s \<noteq> None) ss)"
  by (induction ss) (auto simp: surcharge_line_def Let_def split: option.splits if_splits)











text \<open>
  Claim C8, as the code has it: the list returned by the Charge Calculator starts with the
  ocean-freight line (charge code \<open>OFR\<close>); the charge codes of the remaining lines are in
  ascending order, which is strict when the surcharges of the input carry pairwise distinct
  charge codes; and lines of equal charge code keep the order of the input (the sort is
  stable). The list is a function of the three inputs.
\<close>

theorem charge_lines_ordered:
  "hd (calculate_line_items sh rc ss) = ocean_freight_line sh rc
   \<and> charge_code (hd (calculate_line_items sh rc ss)) = ''OFR''
   \<and> sorted (map charge_code (tl (calculate_line_items sh rc ss)))
   \<and> (distinct (map s_charge_code ss) \<longrightarrow>
        sorted_wrt (<) (map charge_code (tl (calculate_line_items sh rc ss))))
   \<and> (\<forall>k. filter (\<lambda>l. charge_code l = k) (tl (calculate_line_items sh rc ss))
          = filter (\<lambda>l. charge_code l = k) (surcharge_lines sh (ocean_freight_total sh rc) ss))"
proof -
  let ?ls = "surcharge_lines sh (ocean_freight_total sh rc) ss"
  have tl: "tl (calculate_line_items sh rc ss) = sort_key charge_code ?ls"
    by (simp add: calculate_line_items_def)
  have s: "sorted (map charge_code (sort_key charge_code ?ls))"
    by (rule sorted_sort_key)
  have d: "distinct (map charge_code (sort_key charge_code ?ls))"
    if "distinct (map s_charge_code ss)"
  proof -
    from that have "distinct (map charge_code ?ls)"
      by (simp add: codes_surcharge_lines distinct_map_filter)
    then show ?thesis
      by (metis distinct_map distinct_sort set_sort)
  qed
  have st: "filter (\<lambda>l. charge_code l = k) (sort_key charge_code ?ls)
      = filter (\<lambda>l. charge_code l = k) ?ls" for k
    by (rule sort_key_stable)
  show ?thesis
    using s d st by (simp add: tl strict_sorted_iff calculate_line_items_def ocean_freight_line_def)
qed

text \<open>
  Witness for C8: the four surcharges of the example catalog, with distinct charge codes,
  on the 40HC shipment.
\<close>

theorem charge_lines_ordered_witness:
  "distinct (map s_charge_code (surcharges (ex_db [])))
   \<and> map charge_code (calculate_line_items ex_fcl (ex_rate 1800 ''40HC'') (surcharges (ex_db [])))
       = [''OFR'', ''BAF'', ''CAF'', ''DOC_FEE'', ''LCL_MIN'']
   \<and> sorted_wrt (<) (map charge_code
        (tl (calculate_line_items ex_fcl (ex_rate 1800 ''40HC'') (surcharges (ex_db [])))))"
proof -
  have d: "distinct (map s_charge_code (surcharges (ex_db [])))"
    by (simp add: example_defs)
  have m: "map charge_code (calculate_line_items ex_fcl (ex_rate 1800 ''40HC'') (surcharges (ex_db [])))
       = [''OFR'', ''BAF'', ''CAF'', ''DOC_FEE'', ''LCL_MIN'']"
    by (simp add: example_defs calculator_defs)
  show ?thesis
    using d m charge_lines_ordered [of ex_fcl "ex_rate 1800 ''40HC''" "surcharges (ex_db [])"]
    by blast
qed

text \<open>
  Counterexample to C8 as stated: two fixed surcharges with the same charge code give two
  lines with equal codes, so the order is not strictly ascending.
\<close>

theorem charge_lines_strict_counterexample:
  "map charge_code (calculate_line_items ex_fcl (ex_rate 1800 ''40HC'')
      [ex_surcharge 2 ''DOC_FEE'' ''fixed'' 75 ''all'', ex_surcharge 5 ''DOC_FEE'' ''fixed'' 30 ''all''])
     = [''OFR'', ''DOC_FEE'', ''DOC_FEE'']
   \<and> \<not> sorted_wrt (<) (map charge_code (tl (calculate_line_items ex_fcl (ex_rate 1800 ''40HC'')
      [ex_surcharge 2 ''DOC_FEE'' ''fixed'' 75 ''all'', ex_surcharge 5 ''DOC_FEE'' ''fixed'' 30 ''all''])))"
  by (simp add: example_defs calculator_defs)

section \<open>Apply Payment: properties\<close>





lemma record_payment_missing:
  assumes "get_invoice d k = None"
  shows "record_payment d k a pd pm rn nt = (Inl (InvoiceNotFound k), d)"
  using assms by (simp add: record_payment_def)











section \<open>Sweep Overdue: properties\<close>

lemma mark_overdue_map:
  assumes "\<forall>i\<in>set sel. \<forall>j\<in>set xs. inv_id j = inv_id i \<longrightarrow> j = i"
  shows "mark_overdue sel
           (d\<lparr>invoices := map (\<lambda>j. if j \<in> A then j\<lparr>inv_status := Some ''overdue''\<rparr> else j) xs\<rparr>, c)
       = (d\<lparr>invoices := map (\<lambda>j. if j \<in> A \<union> set sel then j\<lparr>inv_status := Some ''overdue''\<rparr> else j) xs\<rparr>,
          c + int (length sel))"
  using assms
proof (induction sel arbitrary: A c)
  case Nil
  then show ?case by simp
next
  case (Cons i rest)
  have step: "map (\<lambda>j. if inv_id j = inv_id i then i\<lparr>inv_status := Some ''overdue''\<rparr> else j)
            (map (\<lambda>j. if j \<in> A then j\<lparr>inv_status := Some ''overdue''\<rparr> else j) xs)
        = map (\<lambda>j. if j \<in> insert i A then j\<lparr>inv_status := Some ''overdue''\<rparr> else j) xs"
    using Cons.prems by auto
  have "mark_overdue (i # rest)
           (d\<lparr>invoices := map (\<lambda>j. if j \<in> A then j\<lparr>inv_status := Some ''overdue''\<rparr> else j) xs\<rparr>, c)
      = mark_overdue rest
           (d\<lparr>invoices := map (\<lambda>j. if j \<in> insert i A then j\<lparr>inv_status := Some ''overdue''\<rparr> else j) xs\<rparr>, c + 1)"
    by (simp add: update_invoice_def step del: map_map)
  also have "\<dots> = (d\<lparr>invoices := map (\<lambda>j. if j \<in> insert i A \<union> set rest then j\<lparr>inv_status := Some ''overdue''\<rparr> else j) xs\<rparr>,
          c + 1 + int (length rest))"
    using Cons.prems by (intro Cons.IH) simp
  finally show ?case by simp
qed

text \<open>
  Claim C7: on a table whose primary keys are distinct, \<open>check_overdue\<close> returns the number
  of invoices whose status is \<open>sent\<close> and whose due date is before \<open>today\<close>, and the
  database it leaves differs from the one it found only in that exactly those invoices have
  status \<open>overdue\<close>; every other invoice (\<open>draft\<close>, \<open>partial\<close>, \<open>paid\<close>, \<open>void\<close>, or
  not yet due) is the row it was.
\<close>

theorem check_overdue_exact:
  assumes "distinct (map inv_id (invoices d))"
  shows "check_overdue d today =
     (int (length (filter (\<lambda>i. inv_status i = Some ''sent'' \<and> inv_due_date i < today) (invoices d))),
      d\<lparr>invoices := map (\<lambda>i. if inv_status i = Some ''sent'' \<and> inv_due_date i < today
                              then i\<lparr>inv_status := Some ''overdue''\<rparr> else i) (invoices d)\<rparr>)"
proof -
  let ?P = "\<lambda>i. inv_status i = Some ''sent'' \<and> inv_due_date i < today"
  let ?sel = "filter ?P (invoices d)"
  have uniq: "\<forall>i\<in>set ?sel. \<forall>j\<in>set (invoices d). inv_id j = inv_id i \<longrightarrow> j = i"
    using assms by (auto simp: distinct_map inj_on_def)
  have d0: "d = d\<lparr>invoices := map (\<lambda>j. if j \<in> {} then j\<lparr>inv_status := Some ''overdue''\<rparr> else j) (invoices d)\<rparr>"
    by simp
  have "mark_overdue ?sel (d, 0)
      = (d\<lparr>invoices := map (\<lambda>j. if j \<in> {} \<union> set ?sel then j\<lparr>inv_status := Some ''overdue''\<rparr> else j) (invoices d)\<rparr>,
         0 + int (length ?sel))"
    by (subst d0, rule mark_overdue_map [OF uniq])
  moreover have "map (\<lambda>j. if j \<in> {} \<union> set ?sel then j\<lparr>inv_status := Some ''overdue''\<rparr> else j) (invoices d)
      = map (\<lambda>i. if ?P i then i\<lparr>inv_status := Some ''overdue''\<rparr> else i) (invoices d)"
    by auto
  ultimately show ?thesis
    by (simp add: check_overdue_def Let_def)
qed

text \<open>
  Witness for C7: of four invoices, a sent and a partial one past due, a sent one due
  today and a draft past due, only the first becomes overdue.
\<close>

theorem check_overdue_exact_witness:
  "distinct (map inv_id (invoices (ex_db
      [ex_invoice 1 ''INV-2026-0001'' 1 ''sent'' 739500 100 0,
       ex_invoice 2 ''INV-2026-0002'' 2 ''partial'' 739500 100 40,
       ex_invoice 3 ''INV-2026-0003'' 3 ''sent'' 739600 100 0,
       ex_invoice 4 ''INV-2026-0004'' 4 ''draft'' 739500 100 0])))
   \<and> fst (check_overdue (ex_db
      [ex_invoice 1 ''INV-2026-0001'' 1 ''sent'' 739500 100 0,
       ex_invoice 2 ''INV-2026-0002'' 2 ''partial'' 739500 100 40,
       ex_invoice 3 ''INV-2026-0003'' 3 ''sent'' 739600 100 0,
       ex_invoice 4 ''INV-2026-0004'' 4 ''draft'' 739500 100 0]) 739600) = 1
   \<and> map inv_status (invoices (snd (check_overdue (ex_db
      [ex_invoice 1 ''INV-2026-0001'' 1 ''sent'' 739500 100 0,
       ex_invoice 2 ''INV-2026-0002'' 2 ''partial'' 739500 100 40,
       ex_invoice 3 ''INV-2026-0003'' 3 ''sent'' 739600 100 0,
       ex_invoice 4 ''INV-2026-0004'' 4 ''draft'' 739500 100 0]) 739600)))
      = [Some ''overdue'', Some ''partial'', Some ''sent'', Some ''draft'']"
proof -
  let ?d = "ex_db
      [ex_invoice 1 ''INV-2026-0001'' 1 ''sent'' 739500 100 0,
       ex_invoice 2 ''INV-2026-0002'' 2 ''partial'' 739500 100 40,
       ex_invoice 3 ''INV-2026-0003'' 3 ''sent'' 739600 100 0,
       ex_invoice 4 ''INV-2026-0004'' 4 ''draft'' 739500 100 0]"
  have h: "distinct (map inv_id (invoices ?d))"
    by (simp add: example_defs)
  show ?thesis
    using h check_overdue_exact [OF h, of 739600]
    by (simp add: example_defs)
qed

section \<open>Invoice Numbering: properties\<close>
























lemma sql_max_None: "sql_max xs = None \<longleftrightarrow> xs = []"
  by (simp add: sql_max_def split: list.splits)




lemma py_int_examples:
  "py_int '' +1_000 '' = Some 1000" "py_int ''1__0'' = None" "py_int ''0007'' = Some 7"
  "split_on CHR ''-'' ''INV-2026-0007'' = [''INV'', ''2026'', ''0007'']"
  by code_simp+




section \<open>Rate Resolver: properties\<close>












section \<open>Generate: properties\<close>

text \<open>
  Claim C4, as the code has it: for every shipment id of a stored shipment, if any invoice
  refers to the shipment, whatever its status, \<open>generate_invoice\<close> fails with the conflict
  error naming a stored invoice of that shipment, and the database after the call is the
  database before it: no invoice or line is created and the existing ones are unchanged. A
  void invoice blocks generation like any other.
\<close>

theorem generate_conflict:
  assumes "sh \<in> set (shipments d)" and "sh_id sh = sid"
    and "i \<in> set (invoices d)" and "inv_shipment_id i = Some sid"
  shows "\<exists>e\<in>set (invoices d). inv_shipment_id e = Some sid \<and>
           generate_invoice d sid today
             = (Inl (AlreadyHasInvoice sid (inv_invoice_number e)), d)"
proof -
  from assms(1,2) obtain s where
    s: "first (filter (\<lambda>s. sh_id s = sid) (shipments d)) = Some s"
    using first_filter_None [of "\<lambda>s. sh_id s = sid" "shipments d"]
    by (cases "first (filter (\<lambda>s. sh_id s = sid) (shipments d))") auto
  from assms(3,4) obtain e where
    e: "first (filter (\<lambda>i. inv_shipment_id i = Some sid) (invoices d)) = Some e"
    using first_filter_None [of "\<lambda>i. inv_shipment_id i = Some sid" "invoices d"]
    by (cases "first (filter (\<lambda>i. inv_shipment_id i = Some sid) (invoices d))") auto
  from first_filter_Some [OF e] have "e \<in> set (invoices d)" "inv_shipment_id e = Some sid"
    by simp_all
  moreover have "generate_invoice d sid today
      = (Inl (AlreadyHasInvoice sid (inv_invoice_number e)), d)"
    by (simp add: generate_invoice_def s e)
  ultimately show ?thesis by blast
qed

text \<open>Witness for C4: the 40HC shipment with a sent invoice.\<close>

theorem generate_conflict_witness:
  "ex_fcl \<in> set (shipments (ex_db [ex_invoice 1 ''INV-2026-0001'' 1 ''sent'' 739500 4375 0]))
   \<and> sh_id ex_fcl = 1
   \<and> ex_invoice 1 ''INV-2026-0001'' 1 ''sent'' 739500 4375 0
        \<in> set (invoices (ex_db [ex_invoice 1 ''INV-2026-0001'' 1 ''sent'' 739500 4375 0]))
   \<and> inv_shipment_id (ex_invoice 1 ''INV-2026-0001'' 1 ''sent'' 739500 4375 0) = Some 1
   \<and> generate_invoice (ex_db [ex_invoice 1 ''INV-2026-0001'' 1 ''sent'' 739500 4375 0]) 1 739600
       = (Inl (AlreadyHasInvoice 1 ''INV-2026-0001''),
          ex_db [ex_invoice 1 ''INV-2026-0001'' 1 ''sent'' 739500 4375 0])"
proof -
  let ?i = "ex_invoice 1 ''INV-2026-0001'' 1 ''sent'' 739500 4375 0"
  let ?d = "ex_db [?i]"
  have a: "ex_fcl \<in> set (shipments ?d)" by (simp add: ex_db_def)
  have b: "sh_id ex_fcl = 1" by (simp add: ex_fcl_def)
  have c: "?i \<in> set (invoices ?d)" by (simp add: ex_db_def)
  have e: "inv_shipment_id ?i = Some 1" by (simp add: ex_invoice_def)
  have n: "inv_invoice_number ?i = ''INV-2026-0001''" by (simp add: ex_invoice_def)
  have inv: "invoices ?d = [?i]" by (simp add: ex_db_def)
  from generate_conflict [OF a b c e, of 739600]
  have "generate_invoice ?d 1 739600 = (Inl (AlreadyHasInvoice 1 ''INV-2026-0001''), ?d)"
    by (simp add: inv n)
  with a b c e show ?thesis by simp
qed

text \<open>
  Counterexample to C4 as stated: the only invoice of shipment 1 is void, and Generate
  still fails with the conflict error.
\<close>

theorem generate_void_conflict_counterexample:
  "map inv_status (filter (\<lambda>i. inv_shipment_id i = Some 1)
      (invoices (ex_db [ex_invoice 1 ''INV-2026-0001'' 1 ''void'' 739500 4375 0])))
     = [Some ''void'']
   \<and> generate_invoice (ex_db [ex_invoice 1 ''INV-2026-0001'' 1 ''void'' 739500 4375 0]) 1 739600
       = (Inl (AlreadyHasInvoice 1 ''INV-2026-0001''),
          ex_db [ex_invoice 1 ''INV-2026-0001'' 1 ''void'' 739500 4375 0])"
  by (simp add: generate_invoice_def first_def example_defs)


end
